theory Spec2Isabelle
  imports Main "HOL-Library.Word" "HOL-Library.Sublist" "HOL-Library.List_Lexorder"
    "HOL-Library.Char_ord"
begin

section \<open>Data model\<close>

text \<open>
  The testing application service of the vacancy backend
  (\<^verbatim>\<open>src/services/testing.py\<close>, class \<^verbatim>\<open>TestingApplicationService\<close>).
  Identifiers are UUIDs (128 bits). A naive \<^verbatim>\<open>datetime\<close> is the number of microseconds
  since \<^verbatim>\<open>datetime.min\<close> (0001-01-01 00:00:00); Python's integers are unbounded.
\<close>

type_synonym uuid = "128 word"

type_synonym datetime = int

text \<open>\<^verbatim>\<open>src/models/permission.py\<close>, member by member.\<close>

datatype Permission =
    GET_PUBLIC_VACANCY
  | GET_TESTING
  | START_TESTING
  | COMPLETE_TESTING
  | GET_SELF_TEST_RESULTS
  | GET_PRIVATE_VACANCY
  | CREATE_VACANCY
  | UPDATE_VACANCY
  | DELETE_VACANCY
  | CREATE_TESTING
  | UPDATE_TESTING
  | DELETE_TESTING
  | GET_USER_TEST_RESULTS

text \<open>
  Modelled from the spec: \<^verbatim>\<open>src/models/state.py\<close> is missing. The data model names the
  vacancy states DRAFT, OPENED and CLOSED and the account states ACTIVE and INACTIVE; the
  service only ever compares with OPENED and ACTIVE.
\<close>

datatype VacancyState = DRAFT | OPENED | CLOSED

datatype UserState = ACTIVE | INACTIVE

text \<open>
  Modelled from the spec: \<^verbatim>\<open>src/models/auth.py\<close> is missing. The caller context carries an
  id, a permission set and an account state.
\<close>

record BaseUser =
  User_id :: uuid
  User_permissions :: "Permission set"
  User_state :: UserState

text \<open>\<^verbatim>\<open>schemas.Vacancy\<close> of \<^verbatim>\<open>src/models/schemas/vacancy.py\<close>.\<close>

record Vacancy =
  Vacancy_id :: uuid
  Vacancy_title :: string
  Vacancy_content :: string
  Vacancy_poster :: "uuid option"
  Vacancy_state :: VacancyState
  Vacancy_test_time :: int
  Vacancy_created_at :: datetime
  Vacancy_updated_at :: "datetime option"

text \<open>
  Modelled from the spec: the schemas of testings, questions and attempts are missing.
  A testing is a named test owned by a vacancy; a question belongs to a testing; an
  attempt records user, testing, the two counters and its creation time.
  \<^verbatim>\<open>schemas.AttemptTest\<close> is an attempt with the testing optionally embedded as \<^verbatim>\<open>test\<close>.
\<close>

record Testing =
  Testing_id :: uuid
  Testing_vacancy_id :: uuid
  Testing_title :: string

record Question =
  Question_id :: uuid
  Question_testing_id :: uuid
  Question_content :: string

record Attempt =
  Attempt_id :: uuid
  Attempt_user_id :: uuid
  Attempt_testing_id :: uuid
  Attempt_correct_answers :: int
  Attempt_total_answers :: int
  Attempt_created_at :: datetime

record AttemptTest = Attempt +
  test :: "Testing option"

text \<open>
  The exceptions of \<^verbatim>\<open>src/exceptions\<close> as the service raises them. The source's messages
  are localised sentences; a message is kept as its template and the id it quotes.
  \<open>Forbidden\<close> and \<open>InvalidState\<close> are what the guard raises. Two are Python's own:
  \<open>OverflowError\<close>, raised by \<^verbatim>\<open>timedelta\<close> and by \<^verbatim>\<open>datetime + timedelta\<close> out of range,
  and \<open>TypeError\<close>, raised by a call that is given the same keyword twice.
\<close>

datatype message =
    Page_not_found
  | Bad_per_page
  | Testing_not_found uuid
  | Vacancy_not_found uuid
  | Vacancy_not_opened uuid
  | Time_expired

datatype error =
    NotFound message
  | BadRequest message
  | Forbidden Permission
  | InvalidState UserState
  | OverflowError
  | TypeError

datatype order_by = Title | Created_at

section \<open>The store, the environment and the calls made on them\<close>

text \<open>
  The relational store behind the five repositories: one list of rows per table, in
  insertion order.
\<close>

record store =
  testings :: "Testing list"
  vacancies :: "Vacancy list"
  attempts :: "Attempt list"
  practical_questions :: "Question list"
  theoretical_questions :: "Question list"

text \<open>
  What a request reads from outside the store: the wall clock read by
  \<^verbatim>\<open>datetime.now()\<close>, and the id and creation time the store gives to a new attempt row.
\<close>

record env =
  clock :: datetime
  new_attempt_id :: uuid
  new_attempt_created_at :: datetime

text \<open>
  Every call the service makes on a collaborator, with its arguments, in the order made.
  \<open>AttemptRepo_get_all\<close> carries limit, offset, order, \<^verbatim>\<open>user_id\<close> and \<^verbatim>\<open>testing_id\<close>;
  \<open>AttemptRepo_search\<close> carries limit, offset, order, query and \<^verbatim>\<open>user_id\<close>;
  \<open>AttemptRepo_create\<close> carries \<^verbatim>\<open>user_id\<close>, \<^verbatim>\<open>testing_id\<close>, \<^verbatim>\<open>correct_answers\<close> and
  \<^verbatim>\<open>total_answers\<close>.
\<close>

datatype call =
    TestingRepo_get uuid
  | TestingRepo_get_all uuid
  | VacancyRepo_get uuid
  | AttemptRepo_get_first uuid uuid
  | AttemptRepo_get_all int int order_by "uuid option" "uuid option"
  | AttemptRepo_search int int order_by string "uuid option"
  | AttemptRepo_create uuid uuid int int
  | PracticalQuestionRepo_get_all uuid
  | TheoreticalQuestionRepo_get_all uuid
  | Datetime_now

text \<open>
  A service method is a function of the environment and the store that returns its result
  (or the exception raised), the store it leaves, and the calls it made.
\<close>

type_synonym 'a io = "env \<Rightarrow> store \<Rightarrow> (error + 'a) \<times> store \<times> call list"

definition io_return :: "'a \<Rightarrow> 'a io" where
  "io_return x = (\<lambda>e s. (Inr x, s, []))"

definition io_raise :: "error \<Rightarrow> 'a io" where
  "io_raise err = (\<lambda>e s. (Inl err, s, []))"

definition io_lift :: "error + 'a \<Rightarrow> 'a io" where
  "io_lift r = (\<lambda>e s. (r, s, []))"

text \<open>Sequencing: an exception in the first part skips the rest.\<close>

definition io_bind :: "'a io \<Rightarrow> ('a \<Rightarrow> 'b io) \<Rightarrow> 'b io" where
  "io_bind m f = (\<lambda>e s.
     case m e s of
       (Inl err, s', t) \<Rightarrow> (Inl err, s', t)
     | (Inr x, s', t) \<Rightarrow> (case f x e s' of (r, s'', t') \<Rightarrow> (r, s'', t @ t')))"

section \<open>Dates\<close>

definition us_per_day :: int where
  "us_per_day = 86400000000"

text \<open>The number of days from \<^verbatim>\<open>datetime.min\<close> to past \<^verbatim>\<open>datetime.max\<close> (9999-12-31).\<close>

definition max_ordinal :: int where
  "max_ordinal = 3652059"

definition is_datetime :: "int \<Rightarrow> bool" where
  "is_datetime t = (0 \<le> t \<and> t < max_ordinal * us_per_day)"

text \<open>\<^verbatim>\<open>timedelta(days=n)\<close>, in microseconds; Python refuses more than 999999999 days.\<close>

definition timedelta :: "int \<Rightarrow> error + int" where
  "timedelta days =
     (if \<bar>days\<bar> > 999999999 then Inl OverflowError else Inr (days * us_per_day))"

text \<open>\<^verbatim>\<open>datetime + timedelta\<close>; Python refuses a result outside the years 1 to 9999.\<close>

definition datetime_add :: "datetime \<Rightarrow> int \<Rightarrow> error + datetime" where
  "datetime_add t delta =
     (if is_datetime (t + delta) then Inr (t + delta) else Inl OverflowError)"

definition datetime_now :: "datetime io" where
  "datetime_now = (\<lambda>e s. (Inr (clock e), s, [Datetime_now]))"

section \<open>Repositories\<close>

text \<open>
  Modelled from the spec: \<^verbatim>\<open>src/services/repository\<close> is missing. The repositories are
  the contracts the spec lists for them: \<open>get\<close> by id returns the row or nothing,
  \<open>get_all\<close> returns the rows that match, \<open>get_first\<close> returns the earliest attempt of a
  user at a testing or nothing, \<open>create\<close> adds one row and returns it. Reads leave the
  store as it is.
\<close>

definition testing_by_id :: "store \<Rightarrow> uuid \<Rightarrow> Testing option" where
  "testing_by_id s i = find (\<lambda>t. Testing_id t = i) (testings s)"

definition testings_of :: "store \<Rightarrow> uuid \<Rightarrow> Testing list" where
  "testings_of s v = filter (\<lambda>t. Testing_vacancy_id t = v) (testings s)"

definition vacancy_by_id :: "store \<Rightarrow> uuid \<Rightarrow> Vacancy option" where
  "vacancy_by_id s i = find (\<lambda>v. Vacancy_id v = i) (vacancies s)"

text \<open>The attempts of one user at one testing, in insertion order, and the earliest.\<close>

definition attempts_of :: "store \<Rightarrow> uuid \<Rightarrow> uuid \<Rightarrow> Attempt list" where
  "attempts_of s u t =
     filter (\<lambda>a. Attempt_user_id a = u \<and> Attempt_testing_id a = t) (attempts s)"

definition first_attempt_of :: "store \<Rightarrow> uuid \<Rightarrow> uuid \<Rightarrow> Attempt option" where
  "first_attempt_of s u t =
     (case attempts_of s u t of
        [] \<Rightarrow> None
      | a # as \<Rightarrow> Some (arg_min_list Attempt_created_at (a # as)))"

definition new_attempt :: "env \<Rightarrow> uuid \<Rightarrow> uuid \<Rightarrow> int \<Rightarrow> int \<Rightarrow> Attempt" where
  "new_attempt e u t correct_answers total_answers =
     \<lparr>Attempt_id = new_attempt_id e, Attempt_user_id = u, Attempt_testing_id = t,
      Attempt_correct_answers = correct_answers, Attempt_total_answers = total_answers,
      Attempt_created_at = new_attempt_created_at e\<rparr>"

definition practical_of :: "store \<Rightarrow> uuid \<Rightarrow> Question list" where
  "practical_of s t = filter (\<lambda>q. Question_testing_id q = t) (practical_questions s)"

definition theoretical_of :: "store \<Rightarrow> uuid \<Rightarrow> Question list" where
  "theoretical_of s t = filter (\<lambda>q. Question_testing_id q = t) (theoretical_questions s)"

definition repo_get :: "uuid \<Rightarrow> Testing option io" where
  "repo_get i = (\<lambda>e s. (Inr (testing_by_id s i), s, [TestingRepo_get i]))"

definition repo_get_all :: "uuid \<Rightarrow> Testing list io" where
  "repo_get_all v = (\<lambda>e s. (Inr (testings_of s v), s, [TestingRepo_get_all v]))"

definition vacancy_repo_get :: "uuid \<Rightarrow> Vacancy option io" where
  "vacancy_repo_get i = (\<lambda>e s. (Inr (vacancy_by_id s i), s, [VacancyRepo_get i]))"

definition attempt_repo_get_first :: "uuid \<Rightarrow> uuid \<Rightarrow> Attempt option io" where
  "attempt_repo_get_first u t = (\<lambda>e s.
     (Inr (first_attempt_of s u t), s, [AttemptRepo_get_first u t]))"

definition attempt_repo_create :: "uuid \<Rightarrow> uuid \<Rightarrow> int \<Rightarrow> int \<Rightarrow> Attempt io" where
  "attempt_repo_create u t correct_answers total_answers = (\<lambda>e s.
     (Inr (new_attempt e u t correct_answers total_answers),
      s\<lparr>attempts := attempts s @ [new_attempt e u t correct_answers total_answers]\<rparr>,
      [AttemptRepo_create u t correct_answers total_answers]))"

definition practical_question_repo_get_all :: "uuid \<Rightarrow> Question list io" where
  "practical_question_repo_get_all t = (\<lambda>e s.
     (Inr (practical_of s t), s, [PracticalQuestionRepo_get_all t]))"

definition theoretical_question_repo_get_all :: "uuid \<Rightarrow> Question list io" where
  "theoretical_question_repo_get_all t = (\<lambda>e s.
     (Inr (theoretical_of s t), s, [TheoreticalQuestionRepo_get_all t]))"

text \<open>
  Listing attempts: an absent \<^verbatim>\<open>user_id\<close> or \<^verbatim>\<open>testing_id\<close> does not filter; the rows are
  ordered by their creation time or by the title of their testing, then the page is cut.
\<close>

definition title_of :: "store \<Rightarrow> Attempt \<Rightarrow> string" where
  "title_of s a =
     (case testing_by_id s (Attempt_testing_id a) of
        None \<Rightarrow> [] | Some t \<Rightarrow> Testing_title t)"

definition matches :: "'a option \<Rightarrow> 'a \<Rightarrow> bool" where
  "matches want have = (case want of None \<Rightarrow> True | Some w \<Rightarrow> have = w)"

definition ordered :: "store \<Rightarrow> order_by \<Rightarrow> Attempt list \<Rightarrow> Attempt list" where
  "ordered s ob rows =
     (case ob of
        Created_at \<Rightarrow> sort_key Attempt_created_at rows
      | Title \<Rightarrow> sort_key (title_of s) rows)"

definition page_of :: "int \<Rightarrow> int \<Rightarrow> 'a list \<Rightarrow> 'a list" where
  "page_of limit offset rows = take (nat limit) (drop (nat offset) rows)"

definition listed ::
  "store \<Rightarrow> int \<Rightarrow> int \<Rightarrow> order_by \<Rightarrow> uuid option \<Rightarrow> uuid option \<Rightarrow> Attempt list" where
  "listed s limit offset ob u t =
     page_of limit offset (ordered s ob
       (filter (\<lambda>a. matches u (Attempt_user_id a) \<and> matches t (Attempt_testing_id a))
          (attempts s)))"

definition found ::
  "store \<Rightarrow> int \<Rightarrow> int \<Rightarrow> order_by \<Rightarrow> string \<Rightarrow> uuid option \<Rightarrow> Attempt list" where
  "found s limit offset ob q u =
     page_of limit offset (ordered s ob
       (filter (\<lambda>a. matches u (Attempt_user_id a) \<and> sublist q (title_of s a))
          (attempts s)))"

definition attempt_repo_get_all ::
  "int \<Rightarrow> int \<Rightarrow> order_by \<Rightarrow> uuid option \<Rightarrow> uuid option \<Rightarrow> Attempt list io" where
  "attempt_repo_get_all limit offset ob u t = (\<lambda>e s.
     (Inr (listed s limit offset ob u t), s, [AttemptRepo_get_all limit offset ob u t]))"

definition attempt_repo_search ::
  "int \<Rightarrow> int \<Rightarrow> order_by \<Rightarrow> string \<Rightarrow> uuid option \<Rightarrow> Attempt list io" where
  "attempt_repo_search limit offset ob q u = (\<lambda>e s.
     (Inr (found s limit offset ob q u), s, [AttemptRepo_search limit offset ob q u]))"

section \<open>The guard and the schemas\<close>

text \<open>
  Modelled from the spec: \<^verbatim>\<open>src/services/auth/filters.py\<close> is missing. The two decorators
  wrap a method: \<^verbatim>\<open>permission_filter\<close> (the outer one, so it runs first) refuses a caller
  that lacks the permission, \<^verbatim>\<open>state_filter\<close> a caller whose account is not in the state;
  neither touches the store.
\<close>

definition permission_filter :: "Permission \<Rightarrow> BaseUser \<Rightarrow> 'a io \<Rightarrow> 'a io" where
  "permission_filter p self body =
     (if p \<in> User_permissions self then body else io_raise (Forbidden p))"

definition state_filter :: "UserState \<Rightarrow> BaseUser \<Rightarrow> 'a io \<Rightarrow> 'a io" where
  "state_filter st self body =
     (if User_state self = st then body else io_raise (InvalidState st))"

text \<open>
  Modelled from the spec: the schema classes are missing. \<^verbatim>\<open>model_validate\<close> copies the
  fields of a row; an attempt row becomes an \<^verbatim>\<open>AttemptTest\<close> with no testing embedded yet.
\<close>

definition Testing_model_validate :: "Testing \<Rightarrow> Testing" where
  "Testing_model_validate t = t"

definition Question_model_validate :: "Question \<Rightarrow> Question" where
  "Question_model_validate q = q"

definition AttemptTest_model_validate :: "Attempt \<Rightarrow> AttemptTest" where
  "AttemptTest_model_validate a =
     \<lparr>Attempt_id = Attempt_id a, Attempt_user_id = Attempt_user_id a,
      Attempt_testing_id = Attempt_testing_id a,
      Attempt_correct_answers = Attempt_correct_answers a,
      Attempt_total_answers = Attempt_total_answers a,
      Attempt_created_at = Attempt_created_at a, test = None\<rparr>"

text \<open>
  Modelled from the spec: \<^verbatim>\<open>model_dump()\<close> of an \<^verbatim>\<open>AttemptTest\<close> is a dict with one key for
  each field of the schema, \<^verbatim>\<open>test\<close> among them.
\<close>

definition AttemptTest_model_dump_keys :: "AttemptTest \<Rightarrow> string list" where
  "AttemptTest_model_dump_keys a =
     [''id'', ''user_id'', ''testing_id'', ''correct_answers'', ''total_answers'',
      ''created_at'', ''test'']"

text \<open>
  The last line of the two complete methods,
  \<^verbatim>\<open>schemas.AttemptTest(**attempt.model_dump(), test=...)\<close>: the keywords of the dump and
  then \<^verbatim>\<open>test\<close> once more. Python refuses a call that gets a keyword twice with a
  \<open>TypeError\<close>, before the schema is built.
\<close>

definition AttemptTest_with_test :: "AttemptTest \<Rightarrow> Testing \<Rightarrow> error + AttemptTest" where
  "AttemptTest_with_test attempt testing =
     (if ''test'' \<in> set (AttemptTest_model_dump_keys attempt) then Inl TypeError
      else Inr (attempt\<lparr>test := Some testing\<rparr>))"

section \<open>The service\<close>

subsection \<open>Listing attempts\<close>

definition get_test_attempts ::
  "BaseUser \<Rightarrow> uuid option \<Rightarrow> int \<Rightarrow> int \<Rightarrow> order_by \<Rightarrow> AttemptTest list io" where
  "get_test_attempts self testing_id page per_page ob =
     permission_filter GET_SELF_TEST_RESULTS self (state_filter ACTIVE self (
     if page < 1 then io_raise (NotFound Page_not_found)
     else if per_page < 1 then io_raise (BadRequest Bad_per_page)
     else
       let per_page_limit = 40;
           per_page = min (min per_page per_page_limit) 2147483646;
           offset = min ((page - 1) * per_page) 2147483646
       in io_bind (attempt_repo_get_all per_page offset ob (Some (User_id self)) testing_id)
            (\<lambda>attempts. io_return (map AttemptTest_model_validate attempts))))"

text \<open>\<^verbatim>\<open>if query:\<close> holds for a query that is neither \<^verbatim>\<open>None\<close> nor the empty string.\<close>

definition get_user_attempts ::
  "BaseUser \<Rightarrow> int \<Rightarrow> int \<Rightarrow> order_by \<Rightarrow> string option \<Rightarrow> uuid option \<Rightarrow>
   AttemptTest list io" where
  "get_user_attempts self page per_page ob query user_id =
     permission_filter GET_USER_TEST_RESULTS self (state_filter ACTIVE self (
     if page < 1 then io_raise (NotFound Page_not_found)
     else if per_page < 1 then io_raise (BadRequest Bad_per_page)
     else
       let per_page_limit = 40;
           per_page = min (min per_page per_page_limit) 2147483646;
           offset = min ((page - 1) * per_page) 2147483646
       in io_bind
            (case query of
               Some (c # cs) \<Rightarrow> attempt_repo_search per_page offset ob (c # cs) user_id
             | _ \<Rightarrow> attempt_repo_get_all per_page offset ob user_id None)
            (\<lambda>attempts. io_return (map AttemptTest_model_validate attempts))))"

subsection \<open>Starting and completing a test\<close>

text \<open>
  The four methods are written out one by one, as the source writes them: each loads the
  testing and its vacancy, requires the vacancy to be opened, and checks the deadline
  against the caller's first attempt before it reads the questions.
\<close>

definition start_practical_testing :: "BaseUser \<Rightarrow> uuid \<Rightarrow> Question list io" where
  "start_practical_testing self testing_id =
     permission_filter START_TESTING self (state_filter ACTIVE self (
     io_bind (repo_get testing_id) (\<lambda>testing.
     case testing of
       None \<Rightarrow> io_raise (NotFound (Testing_not_found testing_id))
     | Some testing \<Rightarrow>
     io_bind (vacancy_repo_get (Testing_vacancy_id testing)) (\<lambda>vacancy.
     case vacancy of
       None \<Rightarrow> io_raise (NotFound (Vacancy_not_found (Testing_vacancy_id testing)))
     | Some vacancy \<Rightarrow>
     if Vacancy_state vacancy \<noteq> OPENED
     then io_raise (BadRequest (Vacancy_not_opened (Testing_vacancy_id testing)))
     else
     io_bind (attempt_repo_get_first (User_id self) testing_id) (\<lambda>first_attempt.
     io_bind
       (case first_attempt of
          None \<Rightarrow> io_return ()
        | Some first_attempt \<Rightarrow>
          io_bind datetime_now (\<lambda>time_now.
          io_bind (io_lift (timedelta (Vacancy_test_time vacancy))) (\<lambda>delta.
          io_bind (io_lift (datetime_add (Attempt_created_at first_attempt) delta))
            (\<lambda>time_deadline.
          if time_now > time_deadline
          then io_raise (BadRequest Time_expired)
          else io_return ())))) (\<lambda>_.
     io_bind (practical_question_repo_get_all testing_id) (\<lambda>questions.
     io_return (map Question_model_validate questions))))))))"

definition start_theoretical_testing :: "BaseUser \<Rightarrow> uuid \<Rightarrow> Question list io" where
  "start_theoretical_testing self testing_id =
     permission_filter START_TESTING self (state_filter ACTIVE self (
     io_bind (repo_get testing_id) (\<lambda>testing.
     case testing of
       None \<Rightarrow> io_raise (NotFound (Testing_not_found testing_id))
     | Some testing \<Rightarrow>
     io_bind (vacancy_repo_get (Testing_vacancy_id testing)) (\<lambda>vacancy.
     case vacancy of
       None \<Rightarrow> io_raise (NotFound (Vacancy_not_found (Testing_vacancy_id testing)))
     | Some vacancy \<Rightarrow>
     if Vacancy_state vacancy \<noteq> OPENED
     then io_raise (BadRequest (Vacancy_not_opened (Testing_vacancy_id testing)))
     else
     io_bind (attempt_repo_get_first (User_id self) testing_id) (\<lambda>first_attempt.
     io_bind
       (case first_attempt of
          None \<Rightarrow> io_return ()
        | Some first_attempt \<Rightarrow>
          io_bind datetime_now (\<lambda>time_now.
          io_bind (io_lift (timedelta (Vacancy_test_time vacancy))) (\<lambda>delta.
          io_bind (io_lift (datetime_add (Attempt_created_at first_attempt) delta))
            (\<lambda>time_deadline.
          if time_now > time_deadline
          then io_raise (BadRequest Time_expired)
          else io_return ())))) (\<lambda>_.
     io_bind (theoretical_question_repo_get_all testing_id) (\<lambda>questions.
     io_return (map Question_model_validate questions))))))))"

definition complete_theoretical_testing :: "BaseUser \<Rightarrow> uuid \<Rightarrow> 'answer list \<Rightarrow> AttemptTest io" where
  "complete_theoretical_testing self testing_id data =
     permission_filter COMPLETE_TESTING self (state_filter ACTIVE self (
     io_bind (repo_get testing_id) (\<lambda>testing.
     case testing of
       None \<Rightarrow> io_raise (NotFound (Testing_not_found testing_id))
     | Some testing \<Rightarrow>
     io_bind (vacancy_repo_get (Testing_vacancy_id testing)) (\<lambda>vacancy.
     case vacancy of
       None \<Rightarrow> io_raise (NotFound (Vacancy_not_found (Testing_vacancy_id testing)))
     | Some vacancy \<Rightarrow>
     if Vacancy_state vacancy \<noteq> OPENED
     then io_raise (BadRequest (Vacancy_not_opened (Testing_vacancy_id testing)))
     else
     io_bind (attempt_repo_get_first (User_id self) testing_id) (\<lambda>first_attempt.
     io_bind
       (case first_attempt of
          None \<Rightarrow> io_return ()
        | Some first_attempt \<Rightarrow>
          io_bind datetime_now (\<lambda>time_now.
          io_bind (io_lift (timedelta (Vacancy_test_time vacancy))) (\<lambda>delta.
          io_bind (io_lift (datetime_add (Attempt_created_at first_attempt) delta))
            (\<lambda>time_deadline.
          if time_now > time_deadline
          then io_raise (BadRequest Time_expired)
          else io_return ())))) (\<lambda>_.
     io_bind (theoretical_question_repo_get_all testing_id) (\<lambda>questions.
     let correct_answers = 0 in
     io_bind (attempt_repo_create (User_id self) testing_id correct_answers
                (int (length questions))) (\<lambda>row.
     let attempt = AttemptTest_model_validate row in
     io_lift (AttemptTest_with_test attempt (Testing_model_validate testing))))))))))"

definition complete_practical_testing :: "BaseUser \<Rightarrow> uuid \<Rightarrow> 'answer list \<Rightarrow> AttemptTest io" where
  "complete_practical_testing self testing_id data =
     permission_filter COMPLETE_TESTING self (state_filter ACTIVE self (
     io_bind (repo_get testing_id) (\<lambda>testing.
     case testing of
       None \<Rightarrow> io_raise (NotFound (Testing_not_found testing_id))
     | Some testing \<Rightarrow>
     io_bind (vacancy_repo_get (Testing_vacancy_id testing)) (\<lambda>vacancy.
     case vacancy of
       None \<Rightarrow> io_raise (NotFound (Vacancy_not_found (Testing_vacancy_id testing)))
     | Some vacancy \<Rightarrow>
     if Vacancy_state vacancy \<noteq> OPENED
     then io_raise (BadRequest (Vacancy_not_opened (Testing_vacancy_id testing)))
     else
     io_bind (attempt_repo_get_first (User_id self) testing_id) (\<lambda>first_attempt.
     io_bind
       (case first_attempt of
          None \<Rightarrow> io_return ()
        | Some first_attempt \<Rightarrow>
          io_bind datetime_now (\<lambda>time_now.
          io_bind (io_lift (timedelta (Vacancy_test_time vacancy))) (\<lambda>delta.
          io_bind (io_lift (datetime_add (Attempt_created_at first_attempt) delta))
            (\<lambda>time_deadline.
          if time_now > time_deadline
          then io_raise (BadRequest Time_expired)
          else io_return ())))) (\<lambda>_.
     io_bind (practical_question_repo_get_all testing_id) (\<lambda>questions.
     let correct_answers = 0 in
     io_bind (attempt_repo_create (User_id self) testing_id correct_answers
                (int (length questions))) (\<lambda>row.
     let attempt = AttemptTest_model_validate row in
     io_lift (AttemptTest_with_test attempt (Testing_model_validate testing))))))))))"

subsection \<open>Reading testings\<close>

definition get_testing :: "BaseUser \<Rightarrow> uuid \<Rightarrow> Testing io" where
  "get_testing self testing_id =
     permission_filter GET_TESTING self (state_filter ACTIVE self (
     io_bind (repo_get testing_id) (\<lambda>testing.
     case testing of
       None \<Rightarrow> io_raise (NotFound (Testing_not_found testing_id))
     | Some testing \<Rightarrow>
     io_bind (vacancy_repo_get (Testing_vacancy_id testing)) (\<lambda>vacancy.
     case vacancy of
       None \<Rightarrow> io_raise (NotFound (Vacancy_not_found (Testing_vacancy_id testing)))
     | Some vacancy \<Rightarrow>
     if Vacancy_state vacancy \<noteq> OPENED
     then io_raise (BadRequest (Vacancy_not_opened (Testing_vacancy_id testing)))
     else io_return (Testing_model_validate testing)))))"

definition get_testings :: "BaseUser \<Rightarrow> uuid \<Rightarrow> Testing list io" where
  "get_testings self vacancy_id =
     permission_filter GET_TESTING self (state_filter ACTIVE self (
     io_bind (repo_get_all vacancy_id) (\<lambda>testings.
     io_return (map Testing_model_validate testings))))"

section \<open>The validations of a lifecycle call, written once\<close>

text \<open>
  The spec describes the checks that the four lifecycle methods repeat as two components,
  a vacancy gate and a deadline policy. \<open>check_deadline\<close> and \<open>validate\<close> follow that
  description: the outcome of the checks and the calls made on the way. The lemmas of the
  next section show that each method, as the source writes it, is its guard, then exactly
  these checks, then its own reads and writes and, for the complete methods, the last line
  that builds the answer.
\<close>

definition check_deadline :: "Attempt option \<Rightarrow> int \<Rightarrow> datetime \<Rightarrow> error + unit" where
  "check_deadline first_attempt allotted_days now =
     (case first_attempt of
        None \<Rightarrow> Inr ()
      | Some a \<Rightarrow>
          if \<bar>allotted_days\<bar> > 999999999
             \<or> \<not> is_datetime (Attempt_created_at a + allotted_days * us_per_day)
          then Inl OverflowError
          else if now > Attempt_created_at a + allotted_days * us_per_day
          then Inl (BadRequest Time_expired)
          else Inr ())"

definition validate ::
  "BaseUser \<Rightarrow> uuid \<Rightarrow> env \<Rightarrow> store \<Rightarrow> (error + Testing) \<times> call list" where
  "validate self testing_id e s =
     (case testing_by_id s testing_id of
        None \<Rightarrow> (Inl (NotFound (Testing_not_found testing_id)), [TestingRepo_get testing_id])
      | Some testing \<Rightarrow>
       (case vacancy_by_id s (Testing_vacancy_id testing) of
          None \<Rightarrow>
            (Inl (NotFound (Vacancy_not_found (Testing_vacancy_id testing))),
             [TestingRepo_get testing_id, VacancyRepo_get (Testing_vacancy_id testing)])
        | Some vacancy \<Rightarrow>
            if Vacancy_state vacancy \<noteq> OPENED
            then (Inl (BadRequest (Vacancy_not_opened (Testing_vacancy_id testing))),
                  [TestingRepo_get testing_id, VacancyRepo_get (Testing_vacancy_id testing)])
            else
              (case check_deadline (first_attempt_of s (User_id self) testing_id)
                      (Vacancy_test_time vacancy) (clock e) of
                 Inl err \<Rightarrow> Inl err
               | Inr _ \<Rightarrow> Inr testing,
               [TestingRepo_get testing_id, VacancyRepo_get (Testing_vacancy_id testing),
                AttemptRepo_get_first (User_id self) testing_id]
               @ (case first_attempt_of s (User_id self) testing_id of
                    None \<Rightarrow> [] | Some _ \<Rightarrow> [Datetime_now]))))"

text \<open>Exchanging the two question tables, and the calls that read them.\<close>

definition swap_questions :: "store \<Rightarrow> store" where
  "swap_questions s =
     s\<lparr>practical_questions := theoretical_questions s,
       theoretical_questions := practical_questions s\<rparr>"

fun swap_call :: "call \<Rightarrow> call" where
  "swap_call (PracticalQuestionRepo_get_all t) = TheoreticalQuestionRepo_get_all t"
| "swap_call (TheoreticalQuestionRepo_get_all t) = PracticalQuestionRepo_get_all t"
| "swap_call c = c"

text \<open>The calls that write to the store.\<close>

fun is_write :: "call \<Rightarrow> bool" where
  "is_write (AttemptRepo_create u t c n) = True"
| "is_write c = False"

text \<open>
  The calls that read the questions. A lifecycle method makes one exactly when the
  validations, the deadline check last among them, let it through.
\<close>

fun is_question_read :: "call \<Rightarrow> bool" where
  "is_question_read (PracticalQuestionRepo_get_all t) = True"
| "is_question_read (TheoreticalQuestionRepo_get_all t) = True"
| "is_question_read c = False"

definition reads_questions :: "call list \<Rightarrow> bool" where
  "reads_questions calls = (filter is_question_read calls \<noteq> [])"

section \<open>A small store to run the service on\<close>

text \<open>
  One vacancy with one testing, two practical and three theoretical questions, a candidate
  (user 1) and a recruiter (user 3). The attempts and the state and allotted days of the
  vacancy vary from run to run.
\<close>

definition candidate :: BaseUser where
  "candidate = \<lparr>User_id = 1,
     User_permissions = {GET_TESTING, START_TESTING, COMPLETE_TESTING, GET_SELF_TEST_RESULTS},
     User_state = ACTIVE\<rparr>"

definition recruiter :: BaseUser where
  "recruiter = \<lparr>User_id = 3,
     User_permissions = {GET_TESTING, CREATE_TESTING, GET_USER_TEST_RESULTS},
     User_state = ACTIVE\<rparr>"

definition vacancy_at :: "VacancyState \<Rightarrow> int \<Rightarrow> Vacancy" where
  "vacancy_at st days =
     \<lparr>Vacancy_id = 10, Vacancy_title = ''Engineer'', Vacancy_content = ''Backend'',
      Vacancy_poster = None, Vacancy_state = st, Vacancy_test_time = days,
      Vacancy_created_at = 63800000000000000, Vacancy_updated_at = None\<rparr>"

definition the_testing :: Testing where
  "the_testing = \<lparr>Testing_id = 20, Testing_vacancy_id = 10, Testing_title = ''Python''\<rparr>"

definition attempt_row :: "uuid \<Rightarrow> uuid \<Rightarrow> datetime \<Rightarrow> Attempt" where
  "attempt_row i u t =
     \<lparr>Attempt_id = i, Attempt_user_id = u, Attempt_testing_id = 20,
      Attempt_correct_answers = 0, Attempt_total_answers = 3, Attempt_created_at = t\<rparr>"

definition question_row :: "uuid \<Rightarrow> Question" where
  "question_row i =
     \<lparr>Question_id = i, Question_testing_id = 20, Question_content = ''Why''\<rparr>"

text \<open>2024-01-01 00:00:00, day 738886 of the calendar.\<close>

definition first_day :: datetime where
  "first_day = 738885 * us_per_day"

definition store_with :: "Vacancy \<Rightarrow> Attempt list \<Rightarrow> store" where
  "store_with v as =
     \<lparr>testings = [the_testing], vacancies = [v], attempts = as,
      practical_questions = [question_row 40, question_row 41],
      theoretical_questions = [question_row 50, question_row 51, question_row 52]\<rparr>"

definition at_time :: "datetime \<Rightarrow> env" where
  "at_time t = \<lparr>clock = t, new_attempt_id = 99, new_attempt_created_at = t\<rparr>"

text \<open>
  Two attempts of the candidate, the later one inserted first, and between them one of
  another user that is older than both.
\<close>

definition earlier_attempts :: "Attempt list" where
  "earlier_attempts =
     [attempt_row 30 1 (first_day + us_per_day), attempt_row 31 2 (first_day - us_per_day),
      attempt_row 32 1 first_day]"

section \<open>Each method is its guard, the validations and its own tail\<close>

text \<open>
  A complete method that the validations let through reads the questions, creates the
  attempt row, and then raises \<open>TypeError\<close> on its last line: the row stays in the store.
\<close>

lemmas io_defs = io_bind_def io_return_def io_raise_def io_lift_def
  permission_filter_def state_filter_def

lemmas repo_defs = repo_get_def repo_get_all_def vacancy_repo_get_def
  attempt_repo_get_first_def attempt_repo_create_def practical_question_repo_get_all_def
  theoretical_question_repo_get_all_def attempt_repo_get_all_def attempt_repo_search_def
  datetime_now_def

lemma start_practical_testing_eq:
  "start_practical_testing self tid e s =
     (if START_TESTING \<notin> User_permissions self then (Inl (Forbidden START_TESTING), s, [])
      else if User_state self \<noteq> ACTIVE then (Inl (InvalidState ACTIVE), s, [])
      else case validate self tid e s of
             (Inl err, t) \<Rightarrow> (Inl err, s, t)
           | (Inr testing, t) \<Rightarrow>
               (Inr (map Question_model_validate (practical_of s tid)), s,
                t @ [PracticalQuestionRepo_get_all tid]))"
  by (auto simp add: start_practical_testing_def validate_def check_deadline_def io_defs
      repo_defs timedelta_def datetime_add_def AttemptTest_with_test_def
      AttemptTest_model_dump_keys_def split: option.splits)

lemma start_theoretical_testing_eq:
  "start_theoretical_testing self tid e s =
     (if START_TESTING \<notin> User_permissions self then (Inl (Forbidden START_TESTING), s, [])
      else if User_state self \<noteq> ACTIVE then (Inl (InvalidState ACTIVE), s, [])
      else case validate self tid e s of
             (Inl err, t) \<Rightarrow> (Inl err, s, t)
           | (Inr testing, t) \<Rightarrow>
               (Inr (map Question_model_validate (theoretical_of s tid)), s,
                t @ [TheoreticalQuestionRepo_get_all tid]))"
  by (auto simp add: start_theoretical_testing_def validate_def check_deadline_def io_defs
      repo_defs timedelta_def datetime_add_def AttemptTest_with_test_def
      AttemptTest_model_dump_keys_def split: option.splits)

lemma complete_theoretical_testing_eq:
  "complete_theoretical_testing self tid data e s =
     (if COMPLETE_TESTING \<notin> User_permissions self
      then (Inl (Forbidden COMPLETE_TESTING), s, [])
      else if User_state self \<noteq> ACTIVE then (Inl (InvalidState ACTIVE), s, [])
      else case validate self tid e s of
             (Inl err, t) \<Rightarrow> (Inl err, s, t)
           | (Inr testing, t) \<Rightarrow>
               (Inl TypeError,
                s\<lparr>attempts := attempts s @
                      [new_attempt e (User_id self) tid 0
                         (int (length (theoretical_of s tid)))]\<rparr>,
                t @ [TheoreticalQuestionRepo_get_all tid,
                     AttemptRepo_create (User_id self) tid 0
                       (int (length (theoretical_of s tid)))]))"
  by (auto simp add: complete_theoretical_testing_def validate_def check_deadline_def io_defs
      repo_defs timedelta_def datetime_add_def AttemptTest_with_test_def
      AttemptTest_model_dump_keys_def split: option.splits)

lemma complete_practical_testing_eq:
  "complete_practical_testing self tid data e s =
     (if COMPLETE_TESTING \<notin> User_permissions self
      then (Inl (Forbidden COMPLETE_TESTING), s, [])
      else if User_state self \<noteq> ACTIVE then (Inl (InvalidState ACTIVE), s, [])
      else case validate self tid e s of
             (Inl err, t) \<Rightarrow> (Inl err, s, t)
           | (Inr testing, t) \<Rightarrow>
               (Inl TypeError,
                s\<lparr>attempts := attempts s @
                      [new_attempt e (User_id self) tid 0
                         (int (length (practical_of s tid)))]\<rparr>,
                t @ [PracticalQuestionRepo_get_all tid,
                     AttemptRepo_create (User_id self) tid 0
                       (int (length (practical_of s tid)))]))"
  by (auto simp add: complete_practical_testing_def validate_def check_deadline_def io_defs
      repo_defs timedelta_def datetime_add_def AttemptTest_with_test_def
      AttemptTest_model_dump_keys_def split: option.splits)

lemmas lifecycle_eq = start_practical_testing_eq start_theoretical_testing_eq
  complete_theoretical_testing_eq complete_practical_testing_eq

section \<open>Facts about the validations\<close>

lemmas demo_defs = candidate_def recruiter_def vacancy_at_def the_testing_def attempt_row_def
  question_row_def first_day_def store_with_def at_time_def earlier_attempts_def
lemmas query_defs = testing_by_id_def vacancy_by_id_def attempts_of_def practical_of_def
  theoretical_of_def testings_of_def

lemma first_attempt_of_None: "(first_attempt_of s u t = None) = (attempts_of s u t = [])"
  by (simp add: first_attempt_of_def split: list.splits)

lemma first_attempt_of_Some:
  assumes "attempts_of s u t \<noteq> []"
  shows "\<exists>a. first_attempt_of s u t = Some a
     \<and> Attempt_created_at a = Min (Attempt_created_at ` set (attempts_of s u t))"
proof -
  obtain a as where xs: "attempts_of s u t = a # as"
    using assms by (cases "attempts_of s u t") auto
  have "Attempt_created_at (arg_min_list Attempt_created_at (a # as))
      = Min (Attempt_created_at ` set (a # as))"
    by (rule f_arg_min_list_f) simp
  then show ?thesis
    by (simp add: first_attempt_of_def xs)
qed

text \<open>A deadline inside the calendar is fewer days away than \<^verbatim>\<open>timedelta\<close> allows.\<close>

lemma days_in_range:
  assumes "is_datetime t" and "is_datetime (t + d * us_per_day)"
  shows "\<bar>d\<bar> \<le> 999999999"
  using assms by (auto simp: is_datetime_def us_per_day_def max_ordinal_def)

lemma validate_opened:
  assumes "testing_by_id s tid = Some testing"
    and "vacancy_by_id s (Testing_vacancy_id testing) = Some vacancy"
    and "Vacancy_state vacancy = OPENED"
  shows "fst (validate self tid e s) =
     (case check_deadline (first_attempt_of s (User_id self) tid)
             (Vacancy_test_time vacancy) (clock e) of
        Inl err \<Rightarrow> Inl err | Inr _ \<Rightarrow> Inr testing)"
  using assms by (simp add: validate_def)

lemma validate_no_attempt:
  assumes "testing_by_id s tid = Some testing"
    and "vacancy_by_id s (Testing_vacancy_id testing) = Some vacancy"
    and "Vacancy_state vacancy = OPENED"
    and "attempts_of s (User_id self) tid = []"
  shows "fst (validate self tid e s) = Inr testing"
  using assms by (simp add: validate_opened first_attempt_of_def check_deadline_def)

lemma validate_deadline:
  assumes "testing_by_id s tid = Some testing"
    and "vacancy_by_id s (Testing_vacancy_id testing) = Some vacancy"
    and "Vacancy_state vacancy = OPENED"
    and "attempts_of s (User_id self) tid \<noteq> []"
    and "t0 = Min (Attempt_created_at ` set (attempts_of s (User_id self) tid))"
    and "is_datetime t0"
    and "is_datetime (t0 + Vacancy_test_time vacancy * us_per_day)"
  shows "fst (validate self tid e s) =
     (if clock e > t0 + Vacancy_test_time vacancy * us_per_day
      then Inl (BadRequest Time_expired) else Inr testing)"
proof -
  obtain a where a: "first_attempt_of s (User_id self) tid = Some a"
    and t0: "Attempt_created_at a = t0"
    using first_attempt_of_Some [OF assms(4)] assms(5) by auto
  have "\<bar>Vacancy_test_time vacancy\<bar> \<le> 999999999"
    using assms(6,7) by (rule days_in_range)
  then show ?thesis
    using assms(1-3,7) a t0 by (simp add: validate_opened check_deadline_def)
qed

text \<open>The result of each method once the guard admits the caller.\<close>

lemma start_practical_testing_fst:
  assumes "START_TESTING \<in> User_permissions self" and "User_state self = ACTIVE"
  shows "fst (start_practical_testing self tid e s) =
     (case fst (validate self tid e s) of
        Inl err \<Rightarrow> Inl err
      | Inr testing \<Rightarrow> Inr (map Question_model_validate (practical_of s tid)))"
  using assms by (simp add: start_practical_testing_eq split: prod.splits sum.splits)

lemma start_theoretical_testing_fst:
  assumes "START_TESTING \<in> User_permissions self" and "User_state self = ACTIVE"
  shows "fst (start_theoretical_testing self tid e s) =
     (case fst (validate self tid e s) of
        Inl err \<Rightarrow> Inl err
      | Inr testing \<Rightarrow> Inr (map Question_model_validate (theoretical_of s tid)))"
  using assms by (simp add: start_theoretical_testing_eq split: prod.splits sum.splits)

lemma complete_theoretical_testing_fst:
  assumes "COMPLETE_TESTING \<in> User_permissions self" and "User_state self = ACTIVE"
  shows "fst (complete_theoretical_testing self tid data e s) =
     (case fst (validate self tid e s) of Inl err \<Rightarrow> Inl err | Inr testing \<Rightarrow> Inl TypeError)"
  using assms by (simp add: complete_theoretical_testing_eq split: prod.splits sum.splits)

lemma complete_practical_testing_fst:
  assumes "COMPLETE_TESTING \<in> User_permissions self" and "User_state self = ACTIVE"
  shows "fst (complete_practical_testing self tid data e s) =
     (case fst (validate self tid e s) of Inl err \<Rightarrow> Inl err | Inr testing \<Rightarrow> Inl TypeError)"
  using assms by (simp add: complete_practical_testing_eq split: prod.splits sum.splits)

lemmas lifecycle_fst = start_practical_testing_fst start_theoretical_testing_fst
  complete_theoretical_testing_fst complete_practical_testing_fst

text \<open>Past the calendar, the check raises Python's OverflowError.\<close>

lemma validate_overflow:
  assumes "testing_by_id s tid = Some testing"
    and "vacancy_by_id s (Testing_vacancy_id testing) = Some vacancy"
    and "Vacancy_state vacancy = OPENED"
    and "attempts_of s (User_id self) tid \<noteq> []"
    and "t0 = Min (Attempt_created_at ` set (attempts_of s (User_id self) tid))"
    and "\<not> is_datetime (t0 + Vacancy_test_time vacancy * us_per_day)"
  shows "fst (validate self tid e s) = Inl OverflowError"
proof -
  obtain a where a: "first_attempt_of s (User_id self) tid = Some a"
    and t0: "Attempt_created_at a = t0"
    using first_attempt_of_Some [OF assms(4)] assms(5) by auto
  show ?thesis
    using assms(1-3,6) a t0 by (simp add: validate_opened check_deadline_def)
qed

text \<open>A method reads the questions exactly when the validations let it through.\<close>

lemma validate_no_question_read:
  "filter is_question_read (snd (validate self tid e s)) = []"
  by (simp add: validate_def split: option.splits)

lemma start_reads_questions:
  assumes "START_TESTING \<in> User_permissions self" and "User_state self = ACTIVE"
  shows "reads_questions (snd (snd (start_practical_testing self tid e s)))
      = (\<not> isl (fst (validate self tid e s)))"
    and "reads_questions (snd (snd (start_theoretical_testing self tid e s)))
      = (\<not> isl (fst (validate self tid e s)))"
  using assms validate_no_question_read [of self tid e s]
  by (auto simp add: reads_questions_def start_practical_testing_eq
      start_theoretical_testing_eq split: prod.splits sum.splits)

lemma complete_reads_questions:
  assumes "COMPLETE_TESTING \<in> User_permissions self" and "User_state self = ACTIVE"
  shows "reads_questions (snd (snd (complete_theoretical_testing self tid data e s)))
      = (\<not> isl (fst (validate self tid e s)))"
    and "reads_questions (snd (snd (complete_practical_testing self tid data e s)))
      = (\<not> isl (fst (validate self tid e s)))"
  using assms validate_no_question_read [of self tid e s]
  by (auto simp add: reads_questions_def complete_theoretical_testing_eq
      complete_practical_testing_eq split: prod.splits sum.splits)

lemmas lifecycle_reads = start_reads_questions complete_reads_questions

text \<open>What the validations read and what they leave alone.\<close>

lemma validate_testing:
  "fst (validate self tid e s) = Inr testing \<Longrightarrow> testing_by_id s tid = Some testing"
  by (auto simp: validate_def split: option.splits if_splits sum.splits)

lemma validate_reads: "filter is_write (snd (validate self tid e s)) = []"
  by (simp add: validate_def split: option.splits)

lemma queries_swap_questions:
  "testing_by_id (swap_questions s) = testing_by_id s"
  "vacancy_by_id (swap_questions s) = vacancy_by_id s"
  "first_attempt_of (swap_questions s) = first_attempt_of s"
  by (simp_all add: fun_eq_iff swap_questions_def testing_by_id_def vacancy_by_id_def
      first_attempt_of_def attempts_of_def)

lemma validate_swap_questions:
  "validate self tid e (swap_questions s) = validate self tid e s"
  unfolding validate_def queries_swap_questions ..

lemma swap_call_validate:
  "map swap_call (snd (validate self tid e s)) = snd (validate self tid e s)"
  by (simp add: validate_def split: option.splits)

lemma swap_questions_twice: "swap_questions (swap_questions s) = s"
  by (simp add: swap_questions_def)

lemma swap_questions_attempts:
  "swap_questions (swap_questions s\<lparr>attempts := as\<rparr>) = s\<lparr>attempts := as\<rparr>"
  by (simp add: swap_questions_def)

lemma practical_of_swap: "practical_of (swap_questions s) tid = theoretical_of s tid"
  and theoretical_of_swap: "theoretical_of (swap_questions s) tid = practical_of s tid"
  and attempts_swap: "attempts (swap_questions s) = attempts s"
  by (simp_all add: swap_questions_def practical_of_def theoretical_of_def)

text \<open>What the lifecycle methods leave in the store.\<close>

lemma lifecycle_frame:
  "(\<forall>start \<in> {start_practical_testing, start_theoretical_testing}.
      fst (snd (start self tid e s)) = s
      \<and> filter is_write (snd (snd (start self tid e s))) = [])
   \<and> (\<forall>complete \<in> {complete_theoretical_testing, complete_practical_testing}.
        (\<not> reads_questions (snd (snd (complete self tid data e s))) \<longrightarrow>
           fst (snd (complete self tid data e s)) = s
           \<and> filter is_write (snd (snd (complete self tid data e s))) = [])
        \<and> (reads_questions (snd (snd (complete self tid data e s))) \<longrightarrow>
           fst (complete self tid data e s) = Inl TypeError
           \<and> (\<exists>row. fst (snd (complete self tid data e s)) = s\<lparr>attempts := attempts s @ [row]\<rparr>)
           \<and> length (filter is_write (snd (snd (complete self tid data e s)))) = 1))"
proof -
  obtain r t where v: "validate self tid e s = (r, t)"
    by (cases "validate self tid e s")
  have t: "filter is_write t = []" "filter is_question_read t = []"
    using validate_reads [of self tid e s] validate_no_question_read [of self tid e s] v
    by simp_all
  show ?thesis
    by (cases r) (auto simp add: lifecycle_eq v t reads_questions_def)
qed

text \<open>No call of a complete method returns an attempt.\<close>

lemma complete_never_returns:
  "isl (fst (complete_theoretical_testing self tid data e s))"
  "isl (fst (complete_practical_testing self tid data e s))"
  by (simp_all add: lifecycle_eq split: prod.splits sum.splits)

section \<open>Facts about the listings\<close>

lemma get_test_attempts_eq:
  "get_test_attempts self tid page per_page ob e s =
     (if GET_SELF_TEST_RESULTS \<notin> User_permissions self
      then (Inl (Forbidden GET_SELF_TEST_RESULTS), s, [])
      else if User_state self \<noteq> ACTIVE then (Inl (InvalidState ACTIVE), s, [])
      else if page < 1 then (Inl (NotFound Page_not_found), s, [])
      else if per_page < 1 then (Inl (BadRequest Bad_per_page), s, [])
      else
        (Inr (map AttemptTest_model_validate
               (listed s (min per_page 40) (min ((page - 1) * min per_page 40) 2147483646) ob
                  (Some (User_id self)) tid)),
         s,
         [AttemptRepo_get_all (min per_page 40) (min ((page - 1) * min per_page 40) 2147483646)
            ob (Some (User_id self)) tid]))"
  by (simp add: get_test_attempts_def io_defs repo_defs Let_def min_def)

lemma get_user_attempts_eq:
  "get_user_attempts self page per_page ob query uid e s =
     (if GET_USER_TEST_RESULTS \<notin> User_permissions self
      then (Inl (Forbidden GET_USER_TEST_RESULTS), s, [])
      else if User_state self \<noteq> ACTIVE then (Inl (InvalidState ACTIVE), s, [])
      else if page < 1 then (Inl (NotFound Page_not_found), s, [])
      else if per_page < 1 then (Inl (BadRequest Bad_per_page), s, [])
      else
        (case query of
           Some (c # cs) \<Rightarrow>
             (Inr (map AttemptTest_model_validate
                    (found s (min per_page 40) (min ((page - 1) * min per_page 40) 2147483646)
                       ob (c # cs) uid)),
              s,
              [AttemptRepo_search (min per_page 40)
                 (min ((page - 1) * min per_page 40) 2147483646) ob (c # cs) uid])
         | _ \<Rightarrow>
             (Inr (map AttemptTest_model_validate
                    (listed s (min per_page 40) (min ((page - 1) * min per_page 40) 2147483646)
                       ob uid None)),
              s,
              [AttemptRepo_get_all (min per_page 40)
                 (min ((page - 1) * min per_page 40) 2147483646) ob uid None])))"
  by (simp add: get_user_attempts_def io_defs repo_defs Let_def min_def
      split: option.splits list.splits)

lemma set_page_of: "set (page_of limit offset rows) \<subseteq> set rows"
  unfolding page_of_def
  by (meson set_take_subset set_drop_subset subset_trans)

lemma set_ordered: "set (ordered s ob rows) = set rows"
  by (cases ob) (simp_all add: ordered_def)

lemma listed_user:
  assumes "a \<in> set (listed s limit offset ob (Some u) t)"
  shows "Attempt_user_id a = u" and "a \<in> set (attempts s)"
proof -
  have "a \<in> set (ordered s ob (filter (\<lambda>a. matches (Some u) (Attempt_user_id a)
      \<and> matches t (Attempt_testing_id a)) (attempts s)))"
    using assms unfolding listed_def by (rule subsetD [OF set_page_of])
  then show "Attempt_user_id a = u" and "a \<in> set (attempts s)"
    by (simp_all add: set_ordered matches_def)
qed

lemma listed_everyone:
  "listed s limit offset ob None None = page_of limit offset (ordered s ob (attempts s))"
  by (simp add: listed_def matches_def)

section \<open>Facts about reading testings\<close>

lemma get_testing_eq:
  "get_testing self tid e s =
     (if GET_TESTING \<notin> User_permissions self then (Inl (Forbidden GET_TESTING), s, [])
      else if User_state self \<noteq> ACTIVE then (Inl (InvalidState ACTIVE), s, [])
      else case testing_by_id s tid of
        None \<Rightarrow> (Inl (NotFound (Testing_not_found tid)), s, [TestingRepo_get tid])
      | Some testing \<Rightarrow>
         (case vacancy_by_id s (Testing_vacancy_id testing) of
            None \<Rightarrow>
              (Inl (NotFound (Vacancy_not_found (Testing_vacancy_id testing))), s,
               [TestingRepo_get tid, VacancyRepo_get (Testing_vacancy_id testing)])
          | Some vacancy \<Rightarrow>
              if Vacancy_state vacancy \<noteq> OPENED
              then (Inl (BadRequest (Vacancy_not_opened (Testing_vacancy_id testing))), s,
                    [TestingRepo_get tid, VacancyRepo_get (Testing_vacancy_id testing)])
              else (Inr (Testing_model_validate testing), s,
                    [TestingRepo_get tid, VacancyRepo_get (Testing_vacancy_id testing)])))"
  by (simp add: get_testing_def io_defs repo_defs split: option.splits)

lemma get_testings_eq:
  "get_testings self vid e s =
     (if GET_TESTING \<notin> User_permissions self then (Inl (Forbidden GET_TESTING), s, [])
      else if User_state self \<noteq> ACTIVE then (Inl (InvalidState ACTIVE), s, [])
      else (Inr (map Testing_model_validate (testings_of s vid)), s, [TestingRepo_get_all vid]))"
  by (simp add: get_testings_def io_defs repo_defs)

section \<open>The deadline\<close>

text \<open>
  C1. Deadline policy, for each of the four lifecycle methods, once the guard admits the
  caller and the vacancy gate is passed. A method passes the deadline check when it goes on
  to read the questions; a start method that passes also returns.

  A caller with no attempt at the testing passes whatever the clock says. For a caller
  whose earliest attempt was created at \<open>t0\<close> (a stored \<^verbatim>\<open>datetime\<close>, so a date of the
  calendar), under a vacancy that allots \<open>d\<close> days:
  when \<open>t0 + d\<close> days is a date of the calendar, the call fails with
  \<open>BadRequest Time_expired\<close> exactly when the clock is past \<open>t0 + d\<close> days, and passes
  otherwise; when \<open>t0 + d\<close> days is no date of the calendar (the allotted days are a plain
  \<^verbatim>\<open>int\<close>), the call neither passes nor fails with \<open>BadRequest\<close>: Python's date arithmetic
  raises \<open>OverflowError\<close>, whatever the clock says.
\<close>

theorem deadline_policy:
  assumes "User_state self = ACTIVE"
    and "testing_by_id s tid = Some testing"
    and "vacancy_by_id s (Testing_vacancy_id testing) = Some vacancy"
    and "Vacancy_state vacancy = OPENED"
    and "prior = attempts_of s (User_id self) tid"
    and "t0 = Min (Attempt_created_at ` set prior)"
    and "deadline = t0 + Vacancy_test_time vacancy * us_per_day"
    and "prior \<noteq> [] \<longrightarrow> is_datetime t0"
  shows
    "(START_TESTING \<in> User_permissions self \<longrightarrow>
        (\<forall>start \<in> {start_practical_testing, start_theoretical_testing}.
           (prior = [] \<longrightarrow>
              \<not> isl (fst (start self tid e s))
              \<and> reads_questions (snd (snd (start self tid e s)))) \<and>
           (prior \<noteq> [] \<and> is_datetime deadline \<longrightarrow>
              (fst (start self tid e s) = Inl (BadRequest Time_expired)) = (clock e > deadline)
              \<and> (\<not> isl (fst (start self tid e s))) = (clock e \<le> deadline)
              \<and> reads_questions (snd (snd (start self tid e s))) = (clock e \<le> deadline)) \<and>
           (prior \<noteq> [] \<and> \<not> is_datetime deadline \<longrightarrow>
              fst (start self tid e s) = Inl OverflowError
              \<and> \<not> reads_questions (snd (snd (start self tid e s)))))) \<and>
     (COMPLETE_TESTING \<in> User_permissions self \<longrightarrow>
        (\<forall>complete \<in> {complete_theoretical_testing, complete_practical_testing}.
           (prior = [] \<longrightarrow> reads_questions (snd (snd (complete self tid data e s)))) \<and>
           (prior \<noteq> [] \<and> is_datetime deadline \<longrightarrow>
              (fst (complete self tid data e s) = Inl (BadRequest Time_expired))
                = (clock e > deadline)
              \<and> reads_questions (snd (snd (complete self tid data e s)))
                = (clock e \<le> deadline)) \<and>
           (prior \<noteq> [] \<and> \<not> is_datetime deadline \<longrightarrow>
              fst (complete self tid data e s) = Inl OverflowError
              \<and> \<not> reads_questions (snd (snd (complete self tid data e s))))))"
proof (cases "prior = []")
  case True
  then have "fst (validate self tid e s) = Inr testing"
    using assms(2-5) by (simp add: validate_no_attempt)
  with True assms(1) show ?thesis
    by (simp add: lifecycle_fst lifecycle_reads)
next
  case False
  show ?thesis
  proof (cases "is_datetime deadline")
    case True
    then have "fst (validate self tid e s) =
       (if clock e > deadline then Inl (BadRequest Time_expired) else Inr testing)"
      using False assms(2-8) validate_deadline [where e = e] by simp
    with False True assms(1) show ?thesis
      by (simp add: lifecycle_fst lifecycle_reads)
  next
    case no: False
    then have "fst (validate self tid e s) = Inl OverflowError"
      using False assms(2-7) validate_overflow [where e = e] by simp
    with False no assms(1) show ?thesis
      by (simp add: lifecycle_fst lifecycle_reads)
  qed
qed

theorem deadline_policy_witness:
  "\<not> isl (fst (start_practical_testing candidate 20 (at_time (first_day + 1000 * us_per_day))
                (store_with (vacancy_at OPENED 5) [])))
   \<and> reads_questions (snd (snd (complete_theoretical_testing candidate 20 ([] :: unit list)
                    (at_time (first_day + 1000 * us_per_day))
                    (store_with (vacancy_at OPENED 5) []))))
   \<and> \<not> isl (fst (start_practical_testing candidate 20 (at_time (first_day + 4 * us_per_day))
                (store_with (vacancy_at OPENED 5) earlier_attempts)))
   \<and> fst (start_practical_testing candidate 20 (at_time (first_day + 6 * us_per_day))
                (store_with (vacancy_at OPENED 5) earlier_attempts))
       = Inl (BadRequest Time_expired)
   \<and> reads_questions (snd (snd (complete_practical_testing candidate 20 ([] :: unit list)
                    (at_time (first_day + 4 * us_per_day))
                    (store_with (vacancy_at OPENED 5) earlier_attempts))))
   \<and> fst (complete_practical_testing candidate 20 ([] :: unit list)
                    (at_time (first_day + 6 * us_per_day))
                    (store_with (vacancy_at OPENED 5) earlier_attempts))
       = Inl (BadRequest Time_expired)
   \<and> fst (start_theoretical_testing candidate 20 (at_time (first_day + 6 * us_per_day))
                (store_with (vacancy_at OPENED 3000000) earlier_attempts))
       = Inl OverflowError"
  using
    deadline_policy [where self = candidate and s = "store_with (vacancy_at OPENED 5) []"
      and tid = 20 and testing = the_testing and vacancy = "vacancy_at OPENED 5"
      and prior = "[]" and ?t0.0 = "Min {}" and deadline = "Min {} + 5 * us_per_day"
      and e = "at_time (first_day + 1000 * us_per_day)" and data = "[] :: unit list"]
    deadline_policy [where self = candidate
      and s = "store_with (vacancy_at OPENED 5) earlier_attempts"
      and tid = 20 and testing = the_testing and vacancy = "vacancy_at OPENED 5"
      and prior = "[attempt_row 30 1 (first_day + us_per_day), attempt_row 32 1 first_day]"
      and ?t0.0 = first_day and deadline = "first_day + 5 * us_per_day"
      and e = "at_time (first_day + 4 * us_per_day)" and data = "[] :: unit list"]
    deadline_policy [where self = candidate
      and s = "store_with (vacancy_at OPENED 5) earlier_attempts"
      and tid = 20 and testing = the_testing and vacancy = "vacancy_at OPENED 5"
      and prior = "[attempt_row 30 1 (first_day + us_per_day), attempt_row 32 1 first_day]"
      and ?t0.0 = first_day and deadline = "first_day + 5 * us_per_day"
      and e = "at_time (first_day + 6 * us_per_day)" and data = "[] :: unit list"]
    deadline_policy [where self = candidate
      and s = "store_with (vacancy_at OPENED 3000000) earlier_attempts"
      and tid = 20 and testing = the_testing and vacancy = "vacancy_at OPENED 3000000"
      and prior = "[attempt_row 30 1 (first_day + us_per_day), attempt_row 32 1 first_day]"
      and ?t0.0 = first_day and deadline = "first_day + 3000000 * us_per_day"
      and e = "at_time (first_day + 6 * us_per_day)" and data = "[] :: unit list"]
  by (simp add: demo_defs query_defs is_datetime_def us_per_day_def max_ordinal_def)

text \<open>
  Stated for every allotted number of days, the policy does not hold. With 3000000 days
  allotted the clock is not past \<open>t0 + d\<close> days, and with -800000 days it is; both calls
  end in \<open>OverflowError\<close> once the clock is read.
\<close>

theorem deadline_policy_counterexample:
  "Min (Attempt_created_at `
      set (attempts_of (store_with (vacancy_at OPENED 3000000) earlier_attempts) 1 20))
     = first_day
   \<and> clock (at_time first_day) \<le> first_day + 3000000 * us_per_day
   \<and> start_practical_testing candidate 20 (at_time first_day)
       (store_with (vacancy_at OPENED 3000000) earlier_attempts)
     = (Inl OverflowError, store_with (vacancy_at OPENED 3000000) earlier_attempts,
        [TestingRepo_get 20, VacancyRepo_get 10, AttemptRepo_get_first 1 20, Datetime_now])
   \<and> clock (at_time first_day) > first_day + (- 800000) * us_per_day
   \<and> start_practical_testing candidate 20 (at_time first_day)
       (store_with (vacancy_at OPENED (- 800000)) earlier_attempts)
     = (Inl OverflowError, store_with (vacancy_at OPENED (- 800000)) earlier_attempts,
        [TestingRepo_get 20, VacancyRepo_get 10, AttemptRepo_get_first 1 20, Datetime_now])"
  by (simp add: demo_defs query_defs start_practical_testing_eq validate_def
      first_attempt_of_def check_deadline_def is_datetime_def us_per_day_def max_ordinal_def)

text \<open>
  C10. The comparison with the deadline is strict. With the earliest attempt of the caller
  created at \<open>t0\<close> (a stored \<^verbatim>\<open>datetime\<close>), \<open>d\<close> days allotted, and \<open>t0 + d\<close> days a date
  of the calendar: each
  start or complete call made when the clock reads exactly \<open>t0 + d\<close> days, or earlier,
  passes the deadline check (it goes on to read the questions, and a start method returns);
  a call that does not pass was made strictly later, and fails with
  \<open>BadRequest Time_expired\<close>.
\<close>

theorem deadline_is_strict:
  assumes "User_state self = ACTIVE"
    and "testing_by_id s tid = Some testing"
    and "vacancy_by_id s (Testing_vacancy_id testing) = Some vacancy"
    and "Vacancy_state vacancy = OPENED"
    and "attempts_of s (User_id self) tid \<noteq> []"
    and "t0 = Min (Attempt_created_at ` set (attempts_of s (User_id self) tid))"
    and "deadline = t0 + Vacancy_test_time vacancy * us_per_day"
    and "is_datetime t0" and "is_datetime deadline"
  shows
    "(START_TESTING \<in> User_permissions self \<longrightarrow>
        (\<forall>start \<in> {start_practical_testing, start_theoretical_testing}.
           (clock e = deadline \<longrightarrow> \<not> isl (fst (start self tid e s))) \<and>
           (clock e < deadline \<longrightarrow> \<not> isl (fst (start self tid e s))) \<and>
           (isl (fst (start self tid e s)) \<longrightarrow> deadline < clock e))) \<and>
     (COMPLETE_TESTING \<in> User_permissions self \<longrightarrow>
        (\<forall>complete \<in> {complete_theoretical_testing, complete_practical_testing}.
           (clock e = deadline \<longrightarrow>
              reads_questions (snd (snd (complete self tid data e s)))
              \<and> fst (complete self tid data e s) \<noteq> Inl (BadRequest Time_expired)) \<and>
           (clock e < deadline \<longrightarrow>
              reads_questions (snd (snd (complete self tid data e s)))
              \<and> fst (complete self tid data e s) \<noteq> Inl (BadRequest Time_expired)) \<and>
           (\<not> reads_questions (snd (snd (complete self tid data e s))) \<longrightarrow>
              deadline < clock e
              \<and> fst (complete self tid data e s) = Inl (BadRequest Time_expired))))"
proof -
  have "fst (validate self tid e s) =
     (if clock e > deadline then Inl (BadRequest Time_expired) else Inr testing)"
    using assms(2-9) validate_deadline [where e = e] by simp
  with assms(1) show ?thesis
    by (simp add: lifecycle_fst lifecycle_reads)
qed

theorem deadline_is_strict_witness:
  "\<not> isl (fst (start_practical_testing candidate 20 (at_time (first_day + 5 * us_per_day))
                (store_with (vacancy_at OPENED 5) earlier_attempts)))
   \<and> reads_questions (snd (snd (complete_theoretical_testing candidate 20 ([] :: unit list)
                (at_time (first_day + 5 * us_per_day))
                (store_with (vacancy_at OPENED 5) earlier_attempts))))
   \<and> fst (start_practical_testing candidate 20 (at_time (first_day + 5 * us_per_day + 1))
                (store_with (vacancy_at OPENED 5) earlier_attempts))
       = Inl (BadRequest Time_expired)
   \<and> fst (complete_theoretical_testing candidate 20 ([] :: unit list)
                (at_time (first_day + 5 * us_per_day + 1))
                (store_with (vacancy_at OPENED 5) earlier_attempts))
       = Inl (BadRequest Time_expired)"
  using
    deadline_is_strict [where self = candidate
      and s = "store_with (vacancy_at OPENED 5) earlier_attempts"
      and tid = 20 and testing = the_testing and vacancy = "vacancy_at OPENED 5"
      and ?t0.0 = first_day and deadline = "first_day + 5 * us_per_day"
      and e = "at_time (first_day + 5 * us_per_day)" and data = "[] :: unit list"]
    deadline_is_strict [where self = candidate
      and s = "store_with (vacancy_at OPENED 5) earlier_attempts"
      and tid = 20 and testing = the_testing and vacancy = "vacancy_at OPENED 5"
      and ?t0.0 = first_day and deadline = "first_day + 5 * us_per_day"
      and e = "at_time (first_day + 5 * us_per_day + 1)" and data = "[] :: unit list"]
  by (simp add: demo_defs query_defs is_datetime_def us_per_day_def max_ordinal_def
      lifecycle_fst lifecycle_reads validate_def first_attempt_of_def check_deadline_def)

text \<open>
  Stated for every allotted number of days, it does not hold: with 4000000 days allotted
  a call made long before \<open>t0 + d\<close> days ends in \<open>OverflowError\<close>, for a start and for a
  complete method.
\<close>

theorem deadline_is_strict_counterexample:
  "Min (Attempt_created_at `
      set (attempts_of (store_with (vacancy_at OPENED 4000000) earlier_attempts) 1 20))
     = first_day
   \<and> clock (at_time (first_day + 7 * us_per_day)) < first_day + 4000000 * us_per_day
   \<and> start_theoretical_testing candidate 20 (at_time (first_day + 7 * us_per_day))
       (store_with (vacancy_at OPENED 4000000) earlier_attempts)
     = (Inl OverflowError, store_with (vacancy_at OPENED 4000000) earlier_attempts,
        [TestingRepo_get 20, VacancyRepo_get 10, AttemptRepo_get_first 1 20, Datetime_now])
   \<and> complete_theoretical_testing candidate 20 ([] :: unit list)
       (at_time (first_day + 7 * us_per_day))
       (store_with (vacancy_at OPENED 4000000) earlier_attempts)
     = (Inl OverflowError, store_with (vacancy_at OPENED 4000000) earlier_attempts,
        [TestingRepo_get 20, VacancyRepo_get 10, AttemptRepo_get_first 1 20, Datetime_now])"
  by (simp add: demo_defs query_defs lifecycle_eq validate_def
      first_attempt_of_def check_deadline_def is_datetime_def us_per_day_def max_ordinal_def)

section \<open>The order of the validations\<close>

text \<open>
  C2. For each start or complete call that the guard admits: an unknown testing id fails
  \<open>NotFound\<close> after the single call that looks the testing up, so before any vacancy or
  deadline check; a testing whose vacancy is absent fails \<open>NotFound\<close>; a vacancy that is
  not opened fails \<open>BadRequest\<close> after the two lookups, so before the first attempt is
  fetched or the clock is read. The store is left as it was.
\<close>

theorem validation_order:
  assumes "User_state self = ACTIVE"
  shows
    "(START_TESTING \<in> User_permissions self \<longrightarrow>
        (\<forall>start \<in> {start_practical_testing, start_theoretical_testing}.
           case testing_by_id s tid of
             None \<Rightarrow>
               start self tid e s =
                 (Inl (NotFound (Testing_not_found tid)), s, [TestingRepo_get tid])
           | Some testing \<Rightarrow>
              (case vacancy_by_id s (Testing_vacancy_id testing) of
                 None \<Rightarrow>
                   start self tid e s =
                     (Inl (NotFound (Vacancy_not_found (Testing_vacancy_id testing))), s,
                      [TestingRepo_get tid, VacancyRepo_get (Testing_vacancy_id testing)])
               | Some vacancy \<Rightarrow>
                   Vacancy_state vacancy \<noteq> OPENED \<longrightarrow>
                   start self tid e s =
                     (Inl (BadRequest (Vacancy_not_opened (Testing_vacancy_id testing))), s,
                      [TestingRepo_get tid, VacancyRepo_get (Testing_vacancy_id testing)])))) \<and>
     (COMPLETE_TESTING \<in> User_permissions self \<longrightarrow>
        (\<forall>complete \<in> {complete_theoretical_testing, complete_practical_testing}.
           case testing_by_id s tid of
             None \<Rightarrow>
               complete self tid data e s =
                 (Inl (NotFound (Testing_not_found tid)), s, [TestingRepo_get tid])
           | Some testing \<Rightarrow>
              (case vacancy_by_id s (Testing_vacancy_id testing) of
                 None \<Rightarrow>
                   complete self tid data e s =
                     (Inl (NotFound (Vacancy_not_found (Testing_vacancy_id testing))), s,
                      [TestingRepo_get tid, VacancyRepo_get (Testing_vacancy_id testing)])
               | Some vacancy \<Rightarrow>
                   Vacancy_state vacancy \<noteq> OPENED \<longrightarrow>
                   complete self tid data e s =
                     (Inl (BadRequest (Vacancy_not_opened (Testing_vacancy_id testing))), s,
                      [TestingRepo_get tid, VacancyRepo_get (Testing_vacancy_id testing)]))))"
  using assms
  by (simp add: start_practical_testing_eq start_theoretical_testing_eq
      complete_theoretical_testing_eq complete_practical_testing_eq validate_def
      split: option.splits)

theorem validation_order_witness:
  "start_practical_testing candidate 21 (at_time first_day)
       (store_with (vacancy_at CLOSED 5) earlier_attempts)
     = (Inl (NotFound (Testing_not_found 21)), store_with (vacancy_at CLOSED 5) earlier_attempts,
        [TestingRepo_get 21])
   \<and> complete_practical_testing candidate 20 ([] :: unit list) (at_time first_day)
       ((store_with (vacancy_at OPENED 5) earlier_attempts)\<lparr>vacancies := []\<rparr>)
     = (Inl (NotFound (Vacancy_not_found 10)),
        (store_with (vacancy_at OPENED 5) earlier_attempts)\<lparr>vacancies := []\<rparr>,
        [TestingRepo_get 20, VacancyRepo_get 10])
   \<and> start_theoretical_testing candidate 20 (at_time (first_day + 9 * us_per_day))
       (store_with (vacancy_at CLOSED 5) earlier_attempts)
     = (Inl (BadRequest (Vacancy_not_opened 10)),
        store_with (vacancy_at CLOSED 5) earlier_attempts,
        [TestingRepo_get 20, VacancyRepo_get 10])
   \<and> complete_theoretical_testing candidate 20 ([] :: unit list)
       (at_time (first_day + 9 * us_per_day)) (store_with (vacancy_at DRAFT 5) earlier_attempts)
     = (Inl (BadRequest (Vacancy_not_opened 10)),
        store_with (vacancy_at DRAFT 5) earlier_attempts,
        [TestingRepo_get 20, VacancyRepo_get 10])"
  using
    validation_order [where self = candidate and tid = 21 and e = "at_time first_day"
      and s = "store_with (vacancy_at CLOSED 5) earlier_attempts" and data = "[] :: unit list"]
    validation_order [where self = candidate and tid = 20 and e = "at_time first_day"
      and s = "(store_with (vacancy_at OPENED 5) earlier_attempts)\<lparr>vacancies := []\<rparr>"
      and data = "[] :: unit list"]
    validation_order [where self = candidate and tid = 20
      and e = "at_time (first_day + 9 * us_per_day)"
      and s = "store_with (vacancy_at CLOSED 5) earlier_attempts" and data = "[] :: unit list"]
    validation_order [where self = candidate and tid = 20
      and e = "at_time (first_day + 9 * us_per_day)"
      and s = "store_with (vacancy_at DRAFT 5) earlier_attempts" and data = "[] :: unit list"]
  by (simp add: demo_defs query_defs)

section \<open>Completing a test\<close>

text \<open>
  C3. Every successful call of \<^verbatim>\<open>complete_theoretical_testing\<close> or
  \<^verbatim>\<open>complete_practical_testing\<close> is to create exactly one attempt row, with the caller's
  id, the given testing id, as many total answers as the testing has questions of that
  kind and no correct answer, and to return this row with the testing embedded as
  \<^verbatim>\<open>test\<close>. The source does create that row, and then does not return: a candidate with
  no earlier attempt completes the theoretical test of an opened vacancy, the row is
  written with 3 total answers for the 3 theoretical questions, and the last line raises
  \<open>TypeError\<close>, because \<^verbatim>\<open>test\<close> is already a key of \<^verbatim>\<open>attempt.model_dump()\<close>.
\<close>

theorem complete_theoretical_raises_after_create:
  "complete_theoretical_testing candidate 20 ([] :: unit list) (at_time first_day)
       (store_with (vacancy_at OPENED 3) [])
     = (Inl TypeError,
        store_with (vacancy_at OPENED 3) [attempt_row 99 1 first_day],
        [TestingRepo_get 20, VacancyRepo_get 10, AttemptRepo_get_first 1 20,
         TheoreticalQuestionRepo_get_all 20, AttemptRepo_create 1 20 0 3])"
  by (simp add: demo_defs query_defs complete_theoretical_testing_eq validate_def
      first_attempt_of_def check_deadline_def new_attempt_def)

section \<open>What a lifecycle call writes\<close>

text \<open>
  C6. No lifecycle call that ends in an error is to change the store. The start methods
  and every call that the guard, a validation or the deadline refuses do leave it as it
  was (lemma \<open>lifecycle_frame\<close>). A complete call that the validations let through does
  not: here \<^verbatim>\<open>complete_practical_testing\<close> ends in \<open>TypeError\<close>, raised by its last line
  after \<^verbatim>\<open>AttemptRepo.create\<close>, and the new attempt row, with 2 total answers for the
  2 practical questions, has stayed in the store.
\<close>

theorem complete_practical_error_keeps_row:
  "fst (complete_practical_testing candidate 20 ([] :: unit list)
       (at_time (first_day + 2 * us_per_day))
       (store_with (vacancy_at OPENED 5) earlier_attempts))
     = Inl TypeError
   \<and> fst (snd (complete_practical_testing candidate 20 ([] :: unit list)
       (at_time (first_day + 2 * us_per_day))
       (store_with (vacancy_at OPENED 5) earlier_attempts)))
     = store_with (vacancy_at OPENED 5)
         (earlier_attempts @
          [\<lparr>Attempt_id = 99, Attempt_user_id = 1, Attempt_testing_id = 20,
            Attempt_correct_answers = 0, Attempt_total_answers = 2,
            Attempt_created_at = first_day + 2 * us_per_day\<rparr>])
   \<and> fst (snd (complete_practical_testing candidate 20 ([] :: unit list)
       (at_time (first_day + 2 * us_per_day))
       (store_with (vacancy_at OPENED 5) earlier_attempts)))
     \<noteq> store_with (vacancy_at OPENED 5) earlier_attempts
   \<and> snd (snd (complete_practical_testing candidate 20 ([] :: unit list)
       (at_time (first_day + 2 * us_per_day))
       (store_with (vacancy_at OPENED 5) earlier_attempts)))
     = [TestingRepo_get 20, VacancyRepo_get 10, AttemptRepo_get_first 1 20, Datetime_now,
        PracticalQuestionRepo_get_all 20, AttemptRepo_create 1 20 0 2]"
  by (simp add: demo_defs query_defs complete_practical_testing_eq validate_def
      first_attempt_of_def check_deadline_def new_attempt_def is_datetime_def
      us_per_day_def max_ordinal_def)

section \<open>The theoretical and the practical variants\<close>

text \<open>
  C9. \<^verbatim>\<open>start_theoretical_testing\<close> is \<^verbatim>\<open>start_practical_testing\<close>, and
  \<^verbatim>\<open>complete_practical_testing\<close> is \<^verbatim>\<open>complete_theoretical_testing\<close>, but for the question
  repository that is read: one variant on a store is the other variant on the store with
  the two question tables exchanged. So on every input and store the two variants of a
  pair raise the same exception or both succeed, and a call that the guard, a validation
  or the deadline refuses makes the same calls and returns the same in both variants.
\<close>

theorem variants_differ_in_questions_only:
  "start_theoretical_testing self tid e s =
     (case start_practical_testing self tid e (swap_questions s) of
        (r, s', calls) \<Rightarrow> (r, swap_questions s', map swap_call calls))
   \<and> complete_practical_testing self tid data e s =
     (case complete_theoretical_testing self tid data e (swap_questions s) of
        (r, s', calls) \<Rightarrow> (r, swap_questions s', map swap_call calls))
   \<and> (\<forall>err. (fst (start_theoretical_testing self tid e s) = Inl err)
           = (fst (start_practical_testing self tid e s) = Inl err))
   \<and> (\<forall>err. (fst (complete_practical_testing self tid data e s) = Inl err)
           = (fst (complete_theoretical_testing self tid data e s) = Inl err))
   \<and> (isl (fst (start_theoretical_testing self tid e s)) \<longrightarrow>
        start_theoretical_testing self tid e s = start_practical_testing self tid e s)
   \<and> (isl (fst (complete_practical_testing self tid data e s))
        \<and> fst (complete_practical_testing self tid data e s) \<noteq> Inl TypeError \<longrightarrow>
        complete_practical_testing self tid data e s
          = complete_theoretical_testing self tid data e s)"
proof -
  obtain r t where v: "validate self tid e s = (r, t)"
    by (cases "validate self tid e s")
  have t: "map swap_call t = t"
    using swap_call_validate [of self tid e s] v by simp
  show ?thesis
    by (cases r)
      (simp_all add: start_theoretical_testing_eq start_practical_testing_eq
        complete_practical_testing_eq complete_theoretical_testing_eq validate_swap_questions v t
        swap_questions_twice swap_questions_attempts practical_of_swap theoretical_of_swap
        attempts_swap)
qed

theorem variants_differ_in_questions_only_witness:
  "start_theoretical_testing candidate 20 (at_time (first_day + 6 * us_per_day))
       (store_with (vacancy_at OPENED 5) earlier_attempts)
     = start_practical_testing candidate 20 (at_time (first_day + 6 * us_per_day))
         (store_with (vacancy_at OPENED 5) earlier_attempts)
   \<and> isl (fst (start_theoretical_testing candidate 20 (at_time (first_day + 6 * us_per_day))
       (store_with (vacancy_at OPENED 5) earlier_attempts)))
   \<and> complete_practical_testing candidate 20 ([] :: unit list) (at_time first_day)
       (store_with (vacancy_at CLOSED 5) earlier_attempts)
     = complete_theoretical_testing candidate 20 ([] :: unit list) (at_time first_day)
         (store_with (vacancy_at CLOSED 5) earlier_attempts)
   \<and> isl (fst (complete_practical_testing candidate 20 ([] :: unit list) (at_time first_day)
       (store_with (vacancy_at CLOSED 5) earlier_attempts)))"
  using
    variants_differ_in_questions_only [where self = candidate and tid = 20
      and e = "at_time (first_day + 6 * us_per_day)"
      and s = "store_with (vacancy_at OPENED 5) earlier_attempts" and data = "[] :: unit list"]
    variants_differ_in_questions_only [where self = candidate and tid = 20
      and e = "at_time first_day"
      and s = "store_with (vacancy_at CLOSED 5) earlier_attempts" and data = "[] :: unit list"]
  by (simp add: demo_defs query_defs lifecycle_eq swap_questions_def
      validate_def first_attempt_of_def check_deadline_def is_datetime_def
      us_per_day_def max_ordinal_def)

section \<open>Listing attempts\<close>

text \<open>
  C4. In both listings, for a caller the guard admits: every page below 1 fails
  \<open>NotFound\<close>, whatever the page size, so the page is checked first; every page size below 1,
  with a page of at least 1, fails \<open>BadRequest\<close>. Neither reaches the repository.
\<close>

theorem listing_page_checks:
  assumes "User_state self = ACTIVE"
  shows
    "(GET_SELF_TEST_RESULTS \<in> User_permissions self \<longrightarrow>
        (page < 1 \<longrightarrow>
           get_test_attempts self tid page per_page ob e s
             = (Inl (NotFound Page_not_found), s, [])) \<and>
        (1 \<le> page \<and> per_page < 1 \<longrightarrow>
           get_test_attempts self tid page per_page ob e s
             = (Inl (BadRequest Bad_per_page), s, []))) \<and>
     (GET_USER_TEST_RESULTS \<in> User_permissions self \<longrightarrow>
        (page < 1 \<longrightarrow>
           get_user_attempts self page per_page ob query uid e s
             = (Inl (NotFound Page_not_found), s, [])) \<and>
        (1 \<le> page \<and> per_page < 1 \<longrightarrow>
           get_user_attempts self page per_page ob query uid e s
             = (Inl (BadRequest Bad_per_page), s, [])))"
  using assms by (simp add: get_test_attempts_eq get_user_attempts_eq)

theorem listing_page_checks_witness:
  "get_test_attempts candidate None 0 0 Created_at (at_time first_day)
       (store_with (vacancy_at OPENED 5) earlier_attempts)
     = (Inl (NotFound Page_not_found), store_with (vacancy_at OPENED 5) earlier_attempts, [])
   \<and> get_test_attempts candidate None 1 0 Created_at (at_time first_day)
       (store_with (vacancy_at OPENED 5) earlier_attempts)
     = (Inl (BadRequest Bad_per_page), store_with (vacancy_at OPENED 5) earlier_attempts, [])
   \<and> get_user_attempts recruiter (- 3) (- 1) Title None None (at_time first_day)
       (store_with (vacancy_at OPENED 5) earlier_attempts)
     = (Inl (NotFound Page_not_found), store_with (vacancy_at OPENED 5) earlier_attempts, [])
   \<and> get_user_attempts recruiter 2 0 Title None None (at_time first_day)
       (store_with (vacancy_at OPENED 5) earlier_attempts)
     = (Inl (BadRequest Bad_per_page), store_with (vacancy_at OPENED 5) earlier_attempts, [])"
  using
    listing_page_checks [where self = candidate and page = 0 and per_page = 0
      and tid = None and ob = Created_at and e = "at_time first_day"
      and s = "store_with (vacancy_at OPENED 5) earlier_attempts"]
    listing_page_checks [where self = candidate and page = 1 and per_page = 0
      and tid = None and ob = Created_at and e = "at_time first_day"
      and s = "store_with (vacancy_at OPENED 5) earlier_attempts"]
    listing_page_checks [where self = recruiter and page = "- 3" and per_page = "- 1"
      and ob = Title and query = None and uid = None and e = "at_time first_day"
      and s = "store_with (vacancy_at OPENED 5) earlier_attempts"]
    listing_page_checks [where self = recruiter and page = 2 and per_page = 0
      and ob = Title and query = None and uid = None and e = "at_time first_day"
      and s = "store_with (vacancy_at OPENED 5) earlier_attempts"]
  by (simp add: candidate_def recruiter_def)

text \<open>
  C5. In both listings, for a caller the guard admits and a page and a page size of at
  least 1, the one repository call (the plain query, or the search when a non-empty query
  string is given) gets as limit 40 for every page size above 40, and the page size itself
  otherwise; and as offset \<open>(page - 1) * limit\<close>, with that clamped limit, cut to at most
  2147483646.
\<close>

theorem listing_page_size:
  assumes "User_state self = ACTIVE" and "1 \<le> page" and "1 \<le> per_page"
    and "limit = (if 40 < per_page then 40 else per_page)"
    and "offset = min ((page - 1) * limit) 2147483646"
  shows
    "(GET_SELF_TEST_RESULTS \<in> User_permissions self \<longrightarrow>
        snd (snd (get_test_attempts self tid page per_page ob e s))
          = [AttemptRepo_get_all limit offset ob (Some (User_id self)) tid]) \<and>
     (GET_USER_TEST_RESULTS \<in> User_permissions self \<longrightarrow>
        snd (snd (get_user_attempts self page per_page ob query uid e s))
          = [case query of
               Some (c # cs) \<Rightarrow> AttemptRepo_search limit offset ob (c # cs) uid
             | _ \<Rightarrow> AttemptRepo_get_all limit offset ob uid None])"
  using assms
  by (auto simp add: get_test_attempts_eq get_user_attempts_eq min_def
      split: option.splits list.splits)

theorem listing_page_size_witness:
  "snd (snd (get_test_attempts candidate (Some 20) 3 100 Created_at (at_time first_day)
       (store_with (vacancy_at OPENED 5) earlier_attempts)))
     = [AttemptRepo_get_all 40 80 Created_at (Some 1) (Some 20)]
   \<and> snd (snd (get_user_attempts recruiter 100000000 41 Title (Some ''py'') None
       (at_time first_day) (store_with (vacancy_at OPENED 5) earlier_attempts)))
     = [AttemptRepo_search 40 2147483646 Title ''py'' None]
   \<and> snd (snd (get_user_attempts recruiter 2 7 Title (Some []) (Some 1)
       (at_time first_day) (store_with (vacancy_at OPENED 5) earlier_attempts)))
     = [AttemptRepo_get_all 7 7 Title (Some 1) None]"
  using
    listing_page_size [where self = candidate and page = 3 and per_page = 100
      and limit = 40 and offset = 80 and tid = "Some 20" and ob = Created_at
      and e = "at_time first_day" and s = "store_with (vacancy_at OPENED 5) earlier_attempts"]
    listing_page_size [where self = recruiter and page = 100000000 and per_page = 41
      and limit = 40 and offset = 2147483646 and ob = Title and query = "Some ''py''"
      and uid = None
      and e = "at_time first_day" and s = "store_with (vacancy_at OPENED 5) earlier_attempts"]
    listing_page_size [where self = recruiter and page = 2 and per_page = 7
      and limit = 7 and offset = 7 and ob = Title and query = "Some []" and uid = "Some 1"
      and e = "at_time first_day" and s = "store_with (vacancy_at OPENED 5) earlier_attempts"]
  by (simp add: candidate_def recruiter_def)

text \<open>
  C7. Every repository call of \<^verbatim>\<open>get_test_attempts\<close> carries the caller's id as
  \<^verbatim>\<open>user_id\<close>, so every attempt it returns belongs to the caller. \<^verbatim>\<open>get_user_attempts\<close>
  does not look at who calls: two callers the guard admits get the same answer; it passes
  its \<^verbatim>\<open>user_id\<close> argument on as given, and when that is absent (and no query string is
  given) it returns a page of all the attempts in the store, of every user.
\<close>

theorem listing_scope:
  "(\<forall>c \<in> set (snd (snd (get_test_attempts self tid page per_page ob e s))).
      \<exists>limit offset. c = AttemptRepo_get_all limit offset ob (Some (User_id self)) tid)
   \<and> (\<forall>rows. fst (get_test_attempts self tid page per_page ob e s) = Inr rows \<longrightarrow>
        (\<forall>a \<in> set rows. Attempt_user_id a = User_id self))
   \<and> (GET_USER_TEST_RESULTS \<in> User_permissions self \<and> User_state self = ACTIVE
        \<and> GET_USER_TEST_RESULTS \<in> User_permissions other \<and> User_state other = ACTIVE \<longrightarrow>
        get_user_attempts self page per_page ob query uid e s
          = get_user_attempts other page per_page ob query uid e s)
   \<and> (\<forall>c \<in> set (snd (snd (get_user_attempts self page per_page ob query uid e s))).
        (\<exists>limit offset. c = AttemptRepo_get_all limit offset ob uid None)
        \<or> (\<exists>limit offset q. c = AttemptRepo_search limit offset ob q uid))
   \<and> (GET_USER_TEST_RESULTS \<in> User_permissions self \<and> User_state self = ACTIVE
        \<and> 1 \<le> page \<and> 1 \<le> per_page \<and> (query = None \<or> query = Some []) \<longrightarrow>
        fst (get_user_attempts self page per_page ob query None e s)
          = Inr (map AttemptTest_model_validate
                  (page_of (min per_page 40) (min ((page - 1) * min per_page 40) 2147483646)
                     (ordered s ob (attempts s)))))"
proof -
  have own: "Attempt_user_id (AttemptTest_model_validate a) = User_id self"
    if "a \<in> set (listed s limit offset ob (Some (User_id self)) tid)" for a limit offset
    using listed_user(1) [OF that] by (simp add: AttemptTest_model_validate_def)
  show ?thesis
    by (auto simp add: get_test_attempts_eq get_user_attempts_eq own listed_everyone
        split: option.splits list.splits)
qed

theorem listing_scope_witness:
  "fst (get_test_attempts candidate None 1 10 Created_at (at_time first_day)
       (store_with (vacancy_at OPENED 5) earlier_attempts))
     = Inr (map AttemptTest_model_validate
              [attempt_row 32 1 first_day, attempt_row 30 1 (first_day + us_per_day)])
   \<and> snd (snd (get_test_attempts candidate None 1 10 Created_at (at_time first_day)
       (store_with (vacancy_at OPENED 5) earlier_attempts)))
     = [AttemptRepo_get_all 10 0 Created_at (Some 1) None]
   \<and> fst (get_user_attempts recruiter 1 10 Created_at None None (at_time first_day)
       (store_with (vacancy_at OPENED 5) earlier_attempts))
     = Inr (map AttemptTest_model_validate
              [attempt_row 31 2 (first_day - us_per_day), attempt_row 32 1 first_day,
               attempt_row 30 1 (first_day + us_per_day)])
   \<and> get_user_attempts recruiter 1 10 Created_at None None (at_time first_day)
       (store_with (vacancy_at OPENED 5) earlier_attempts)
     = get_user_attempts (recruiter\<lparr>User_id := 4\<rparr>) 1 10 Created_at None None
         (at_time first_day) (store_with (vacancy_at OPENED 5) earlier_attempts)"
  using
    listing_scope [where self = candidate and tid = None and page = 1 and per_page = 10
      and ob = Created_at and e = "at_time first_day"
      and s = "store_with (vacancy_at OPENED 5) earlier_attempts"]
    listing_scope [where self = recruiter and other = "recruiter\<lparr>User_id := 4\<rparr>"
      and page = 1 and per_page = 10 and query = None and uid = None
      and ob = Created_at and e = "at_time first_day"
      and s = "store_with (vacancy_at OPENED 5) earlier_attempts"]
  by (simp add: demo_defs get_test_attempts_eq get_user_attempts_eq listed_def page_of_def
      ordered_def matches_def us_per_day_def)

section \<open>Reading testings\<close>

text \<open>
  C8. \<^verbatim>\<open>get_testings\<close> does not apply the opened-vacancy restriction: for every vacancy id,
  once the guard admits the caller, it returns the repository's list after one call and
  never looks the vacancy up, whatever its state; \<^verbatim>\<open>get_testing\<close>, by contrast, fails
  \<open>BadRequest\<close> for a testing whose vacancy is not opened.
\<close>

theorem get_testings_ignores_vacancy_state:
  assumes "GET_TESTING \<in> User_permissions self" and "User_state self = ACTIVE"
  shows
    "get_testings self vid e s
       = (Inr (map Testing_model_validate (testings_of s vid)), s, [TestingRepo_get_all vid])
     \<and> (\<forall>testing vacancy.
          testing_by_id s tid = Some testing
          \<and> vacancy_by_id s (Testing_vacancy_id testing) = Some vacancy
          \<and> Vacancy_state vacancy \<noteq> OPENED \<longrightarrow>
          get_testing self tid e s
            = (Inl (BadRequest (Vacancy_not_opened (Testing_vacancy_id testing))), s,
               [TestingRepo_get tid, VacancyRepo_get (Testing_vacancy_id testing)]))"
  using assms by (simp add: get_testings_eq get_testing_eq)

theorem get_testings_ignores_vacancy_state_witness:
  "get_testings candidate 10 (at_time first_day) (store_with (vacancy_at CLOSED 5) [])
     = (Inr [the_testing], store_with (vacancy_at CLOSED 5) [], [TestingRepo_get_all 10])
   \<and> get_testing candidate 20 (at_time first_day) (store_with (vacancy_at CLOSED 5) [])
     = (Inl (BadRequest (Vacancy_not_opened 10)), store_with (vacancy_at CLOSED 5) [],
        [TestingRepo_get 20, VacancyRepo_get 10])
   \<and> get_testings recruiter 11 (at_time first_day) (store_with (vacancy_at DRAFT 5) [])
     = (Inr [], store_with (vacancy_at DRAFT 5) [], [TestingRepo_get_all 11])"
  using
    get_testings_ignores_vacancy_state [where self = candidate and vid = 10 and tid = 20
      and e = "at_time first_day" and s = "store_with (vacancy_at CLOSED 5) []"]
    get_testings_ignores_vacancy_state [where self = recruiter and vid = 11 and tid = 20
      and e = "at_time first_day" and s = "store_with (vacancy_at DRAFT 5) []"]
  by (simp add: demo_defs query_defs Testing_model_validate_def)

end
